theory Spec2Isabelle
  imports Complex_Main
begin

section \<open>The command-line argument objects of the simulation frontend\<close>

text \<open>
  \<^verbatim>\<open>static/js/CLIArgument.js\<close> declares a class with five fields. The values the
  fields hold are JavaScript values: what \<^verbatim>\<open>JSON.parse\<close> produces, what the form
  inputs and \<^verbatim>\<open>prompt\<close> return, and \<^verbatim>\<open>undefined\<close>.
\<close>

datatype js_value =
    JUndefined
  | JNull
  | JBool bool
  | JNumber real
  | JString string
  | JArray "js_value list"
  | JObject "(string \<times> js_value) list"

record CLIArgument =
  key :: js_value
  display_name :: js_value
  type_field :: js_value
  value_field :: js_value
  default_value :: js_value

text \<open>The constructor stores its five parameters.\<close>

definition new_CLIArgument ::
  "js_value \<Rightarrow> js_value \<Rightarrow> js_value \<Rightarrow> js_value \<Rightarrow> js_value \<Rightarrow> CLIArgument" where
  "new_CLIArgument k d t v dv =
     \<lparr>key = k, display_name = d, type_field = t, value_field = v, default_value = dv\<rparr>"

text \<open>
  \<^verbatim>\<open>setValue(value) { if (value === undefined) { this.setValue(null); } this.value = value; }\<close>

  The object is passed in and the updated object returned. The recursive call is made
  with \<^verbatim>\<open>null\<close>, which is not \<^verbatim>\<open>undefined\<close>, so the recursion is one level deep.
\<close>

function setValue :: "CLIArgument \<Rightarrow> js_value \<Rightarrow> CLIArgument" where
  "setValue this v =
     (let this1 = (if v = JUndefined then setValue this JNull else this)
      in this1\<lparr>value_field := v\<rparr>)"
  by pat_completeness auto
termination
  by (relation "measure (\<lambda>(this, v). if v = JUndefined then 1 else 0)") auto

text \<open>
  Property access \<^verbatim>\<open>o.k\<close>: on \<^verbatim>\<open>null\<close> and \<^verbatim>\<open>undefined\<close> it throws a TypeError
  (\<open>None\<close>); on an object a missing member reads as \<^verbatim>\<open>undefined\<close>. A \<open>JObject\<close> lists
  the members of a parsed object, each key once. The scripts read only members of
  parsed JSON, so the built-in properties of strings and arrays are left out.
\<close>

fun member :: "js_value \<Rightarrow> string \<Rightarrow> js_value option" where
  "member JUndefined k = None"
| "member JNull k = None"
| "member (JObject kvs) k = (case map_of kvs k of None \<Rightarrow> Some JUndefined | Some v \<Rightarrow> Some v)"
| "member _ k = Some JUndefined"

text \<open>
  \<^verbatim>\<open>static fromJSON(arg)\<close>: the value starts as \<^verbatim>\<open>undefined\<close>; reading a member of
  \<^verbatim>\<open>null\<close> or \<^verbatim>\<open>undefined\<close> throws.
\<close>

definition fromJSON :: "js_value \<Rightarrow> CLIArgument option" where
  "fromJSON arg =
     (case (member arg ''key'', member arg ''display_name'', member arg ''type'',
            member arg ''default_value'') of
        (Some k, Some d, Some t, Some dv) \<Rightarrow> Some (new_CLIArgument k d t JUndefined dv)
      | _ \<Rightarrow> None)"

section \<open>The simulation page\<close>

text \<open>
  \<^verbatim>\<open>templates/app/simulation-view.html\<close>. The script talks to the server with
  \<^verbatim>\<open>fetch\<close> and changes four elements of the page. A request is the endpoint with its
  query parameters; \<^verbatim>\<open>URLSearchParams\<close> and \<^verbatim>\<open>innerText\<close> turn the values they are given
  into text, so the model keeps the values themselves.
\<close>

datatype request =
    SimulateRequest string js_value
  | ResultsRequest js_value

record response =
  ok :: bool
  body_text :: string
  json :: "js_value option"

text \<open>
  \<open>json\<close> is what \<^verbatim>\<open>response.json()\<close> resolves to, \<open>None\<close> when the body is not JSON
  and the promise is rejected. \<^verbatim>\<open>fetch\<close> itself is rejected on a network failure.
\<close>

datatype fetch_result = Rejected | Resp response

text \<open>
  The server is outside the script: it is a function from the requests sent so far,
  the current one last, to the answer to the current one.
\<close>

type_synonym server = "request list \<Rightarrow> fetch_result"

record page =
  simulation_status :: string
  simulation_id :: js_value
  line_plot :: "js_value option"
  table_plot :: "js_value option"
  alerts :: "string list"
  fetched :: "request list"

text \<open>
  \<open>line_plot\<close> and \<open>table_plot\<close> hold the data last handed to \<^verbatim>\<open>Plotly.newPlot\<close> for the
  element, \<open>None\<close> while the element is the empty \<^verbatim>\<open>div\<close> of the template; \<open>alerts\<close>
  and \<open>fetched\<close> record the alerts shown and the requests sent, oldest first.
\<close>

definition initial_page :: page where
  "initial_page =
     \<lparr>simulation_status = ''Ready'', simulation_id = JString ''N/A'',
      line_plot = None, table_plot = None, alerts = [], fetched = []\<rparr>"

text \<open>An async function either returns or ends in an uncaught exception.\<close>

datatype completion = Returned | Threw

text \<open>
  \<^verbatim>\<open>fetch(url)\<close>: the request is recorded as sent, and the server answers on the
  requests sent so far.
\<close>

definition send :: "request \<Rightarrow> page \<Rightarrow> page" where
  "send req pg = pg\<lparr>fetched := fetched pg @ [req]\<rparr>"

definition answer :: "server \<Rightarrow> page \<Rightarrow> fetch_result" where
  "answer srv pg = srv (fetched pg)"

definition do_alert :: "string \<Rightarrow> page \<Rightarrow> page" where
  "do_alert msg pg = pg\<lparr>alerts := alerts pg @ [msg]\<rparr>"

text \<open>
  \<^verbatim>\<open>async function getResults(identifier)\<close>: one \<^verbatim>\<open>fetch\<close>, then either the alert or
  the two plots.
\<close>

definition getResults :: "server \<Rightarrow> js_value \<Rightarrow> page \<Rightarrow> completion \<times> page" where
  "getResults srv identifier pg =
     (let pg1 = pg\<lparr>simulation_status := ''Retrieving results''\<rparr>;
          pg2 = send (ResultsRequest identifier) pg1
      in case answer srv pg2 of
           Rejected \<Rightarrow> (Threw, pg2)
         | Resp r \<Rightarrow>
             if \<not> ok r then (Returned, do_alert (''Error: '' @ body_text r) pg2)
             else
               (case json r of
                  None \<Rightarrow> (Threw, pg2)
                | Some parsed \<Rightarrow>
                    (case member parsed ''data'' of
                       None \<Rightarrow> (Threw, pg2)
                     | Some d \<Rightarrow>
                         (case member d ''line'' of
                            None \<Rightarrow> (Threw, pg2)
                          | Some l \<Rightarrow>
                              let pg3 = pg2\<lparr>line_plot := Some l\<rparr> in
                              (case member d ''table'' of
                                 None \<Rightarrow> (Threw, pg3)
                               | Some t \<Rightarrow>
                                   (Returned,
                                    pg3\<lparr>table_plot := Some t,
                                        simulation_status := ''Done''\<rparr>))))))"

text \<open>
  \<^verbatim>\<open>async function simulate(args)\<close>; \<open>simulation_type_key\<close> is the template's
  \<^verbatim>\<open>{{ simulation_type.key }}\<close>.
\<close>

definition simulate :: "string \<Rightarrow> server \<Rightarrow> js_value \<Rightarrow> page \<Rightarrow> completion \<times> page" where
  "simulate simulation_type_key srv args pg =
     (let pg1 = pg\<lparr>simulation_status := ''Simulating'', simulation_id := JString ''pending''\<rparr>;
          pg2 = send (SimulateRequest simulation_type_key args) pg1
      in case answer srv pg2 of
           Rejected \<Rightarrow> (Threw, pg2)
         | Resp r \<Rightarrow>
             if \<not> ok r then (Returned, do_alert (''Error: '' @ body_text r) pg2)
             else
               (case json r of
                  None \<Rightarrow> (Threw, pg2)
                | Some data \<Rightarrow>
                    (case member data ''identifier'' of
                       None \<Rightarrow> (Threw, pg2)
                     | Some identifier \<Rightarrow>
                         getResults srv identifier (pg2\<lparr>simulation_id := identifier\<rparr>))))"

text \<open>
  \<^verbatim>\<open>async function getResultsForIdentifier()\<close>, behind the \<^verbatim>\<open>Get Results\<close> button;
  \<open>entered\<close> is what \<^verbatim>\<open>prompt\<close> returns, \<^verbatim>\<open>null\<close> when the dialog is cancelled.
\<close>

definition getResultsForIdentifier :: "server \<Rightarrow> js_value \<Rightarrow> page \<Rightarrow> completion \<times> page" where
  "getResultsForIdentifier srv entered pg =
     (if entered = JNull then (Returned, pg) else getResults srv entered pg)"

text \<open>The requests for results among the requests sent.\<close>

fun is_results_request :: "request \<Rightarrow> bool" where
  "is_results_request (ResultsRequest i) = True"
| "is_results_request (SimulateRequest k a) = False"

definition results_requests :: "page \<Rightarrow> request list" where
  "results_requests pg = filter is_results_request (fetched pg)"

section \<open>The depot notebook: average-return scenario\<close>

text \<open>
  The second notebook reads \<^verbatim>\<open>Depotwerte.csv\<close> into a dataframe and adds two scenario
  columns. Dates are parsed with \<^verbatim>\<open>%d.%m.%Y\<close>, so a date is a whole day, here its
  day number; the \<^verbatim>\<open>.days\<close> of a difference of two dates is the difference of the day
  numbers, a Python int. Cell values are real numbers, read from the frame as numpy
  \<^verbatim>\<open>float64\<close>, and the arithmetic on them is exact. Floats also have values that are no
  real number, which the operations produce where the real operation is undefined:
  \<^verbatim>\<open>nan\<close> and the two infinities.
\<close>

datatype num = Fin real | PInf | NInf | NaN





definition is_integer :: "real \<Rightarrow> bool" where
  "is_integer y = (real_of_int \<lfloor>y\<rfloor> = y)"

text \<open>
  \<^verbatim>\<open>x ** y\<close> as numpy computes it for a \<^verbatim>\<open>float64\<close> base and a finite exponent:
  anything to the power zero is one; a positive base has its real power; a negative base
  has a real power for an integer exponent only and gives \<^verbatim>\<open>nan\<close> otherwise; zero to a
  negative power is infinite. Nothing is raised.
\<close>

fun fpow :: "num \<Rightarrow> real \<Rightarrow> num" where
  "fpow (Fin x) y =
     (if y = 0 then Fin 1
      else if 0 < x then Fin (x powr y)
      else if x = 0 then (if 0 < y then Fin 0 else PInf)
      else if is_integer y then Fin (x powi \<lfloor>y\<rfloor>)
      else NaN)"
| "fpow PInf y = (if y = 0 then Fin 1 else if 0 < y then PInf else Fin 0)"
| "fpow NInf y =
     (if y = 0 then Fin 1
      else if y < 0 then Fin 0
      else if is_integer y \<and> odd \<lfloor>y\<rfloor> then NInf else PInf)"
| "fpow NaN y = (if y = 0 then Fin 1 else NaN)"














section \<open>Example inputs\<close>

text \<open>
  A server on which results are not ready at once: it accepts a simulation under the
  identifier \<^verbatim>\<open>sim-1\<close>, refuses the first request for results and answers every later
  one with the two plots.
\<close>

definition slow_server :: server where
  "slow_server reqs =
     (case reqs of
        [] \<Rightarrow> Rejected
      | _ \<Rightarrow>
          (case last reqs of
             SimulateRequest k a \<Rightarrow>
               Resp \<lparr>ok = True, body_text = [],
                     json = Some (JObject [(''identifier'', JString ''sim-1'')])\<rparr>
           | ResultsRequest i \<Rightarrow>
               if length (filter is_results_request reqs) < 2
               then Resp \<lparr>ok = False, body_text = ''not ready'', json = None\<rparr>
               else Resp \<lparr>ok = True, body_text = [],
                          json = Some (JObject [(''data'',
                                   JObject [(''line'', JArray []), (''table'', JArray [])])])\<rparr>))"

text \<open>A server that refuses every request.\<close>

definition refusing_server :: server where
  "refusing_server reqs = Resp \<lparr>ok = False, body_text = ''Bad request'', json = None\<rparr>"




section \<open>Properties of setValue\<close>

lemma setValue_unfold:
  "setValue this v = this\<lparr>value_field := v\<rparr>"
  by (cases "v = JUndefined") simp_all

text \<open>
  C2. After \<^verbatim>\<open>a.setValue(v)\<close> the field \<^verbatim>\<open>value\<close> of \<^verbatim>\<open>a\<close> is \<^verbatim>\<open>v\<close>, for every
  value \<^verbatim>\<open>v\<close>, \<^verbatim>\<open>undefined\<close> included: the assignment after the recursive call
  overwrites the \<^verbatim>\<open>null\<close> the recursive call stored, so \<^verbatim>\<open>a.setValue(undefined)\<close>
  leaves \<^verbatim>\<open>undefined\<close>, not \<^verbatim>\<open>null\<close>, in the field.
\<close>

theorem setValue_stores_argument:
  "value_field (setValue a v) = v
   \<and> value_field (setValue a JUndefined) = JUndefined
   \<and> value_field (setValue a JUndefined) \<noteq> JNull"
  by (simp add: setValue_unfold)

section \<open>Properties of the simulation page\<close>

lemma getResults_fetched:
  "fetched (snd (getResults srv i pg)) = fetched pg @ [ResultsRequest i]"
  by (simp add: getResults_def send_def answer_def do_alert_def Let_def
      split: fetch_result.splits option.splits)

lemma getResults_not_ok:
  assumes "srv (fetched pg @ [ResultsRequest i]) = Resp r" and "\<not> ok r"
  shows "getResults srv i pg =
           (Returned,
            pg\<lparr>simulation_status := ''Retrieving results'',
               fetched := fetched pg @ [ResultsRequest i],
               alerts := alerts pg @ [''Error: '' @ body_text r]\<rparr>)"
  using assms by (simp add: getResults_def send_def answer_def do_alert_def Let_def)

lemma simulate_not_ok:
  assumes "srv (fetched pg @ [SimulateRequest k args]) = Resp r" and "\<not> ok r"
  shows "simulate k srv args pg =
           (Returned,
            pg\<lparr>simulation_status := ''Simulating'', simulation_id := JString ''pending'',
               fetched := fetched pg @ [SimulateRequest k args],
               alerts := alerts pg @ [''Error: '' @ body_text r]\<rparr>)"
  using assms by (simp add: simulate_def send_def answer_def do_alert_def Let_def)

lemma simulate_accepted:
  assumes "srv (fetched pg @ [SimulateRequest k args]) = Resp r" and "ok r"
    and "json r = Some data" and "member data ''identifier'' = Some i"
  shows "simulate k srv args pg =
           getResults srv i
             (pg\<lparr>simulation_status := ''Simulating'',
                 fetched := fetched pg @ [SimulateRequest k args],
                 simulation_id := i\<rparr>)"
  using assms by (simp add: simulate_def send_def answer_def Let_def)

text \<open>
  C1, as the code has it. When the simulate endpoint has accepted the request and
  returned an identifier, a call of \<^verbatim>\<open>simulate\<close> sends exactly one request to the
  get-simulation-results endpoint, for that identifier, whatever the answer to it is:
  the requests it sends are the simulate request and that one request for results.
\<close>

theorem simulate_requests_results_once:
  assumes "srv (fetched pg @ [SimulateRequest k args]) = Resp r" and "ok r"
    and "json r = Some data" and "member data ''identifier'' = Some i"
  shows "fetched (snd (simulate k srv args pg)) =
           fetched pg @ [SimulateRequest k args, ResultsRequest i]
         \<and> results_requests (snd (simulate k srv args pg)) =
           results_requests pg @ [ResultsRequest i]"
  using assms simulate_accepted [of srv pg k args r "data" i]
  by (simp add: getResults_fetched results_requests_def)

text \<open>
  The theorem at the slow server, from the freshly loaded page: the one request for
  results is for \<^verbatim>\<open>sim-1\<close>.
\<close>

theorem simulate_requests_results_once_witness:
  "slow_server (fetched initial_page @ [SimulateRequest ''etf'' (JArray [])]) =
     Resp \<lparr>ok = True, body_text = [],
           json = Some (JObject [(''identifier'', JString ''sim-1'')])\<rparr>
   \<and> member (JObject [(''identifier'', JString ''sim-1'')]) ''identifier'' =
       Some (JString ''sim-1'')
   \<and> fetched (snd (simulate ''etf'' slow_server (JArray []) initial_page)) =
       [SimulateRequest ''etf'' (JArray []), ResultsRequest (JString ''sim-1'')]
   \<and> results_requests (snd (simulate ''etf'' slow_server (JArray []) initial_page)) =
       [ResultsRequest (JString ''sim-1'')]"
proof -
  let ?r = "\<lparr>ok = True, body_text = [],
             json = Some (JObject [(''identifier'', JString ''sim-1'')])\<rparr>"
  have a: "slow_server (fetched initial_page @ [SimulateRequest ''etf'' (JArray [])]) = Resp ?r"
    by (simp add: slow_server_def initial_page_def)
  have b: "ok ?r" by simp
  have c: "json ?r = Some (JObject [(''identifier'', JString ''sim-1'')])" by simp
  have d: "member (JObject [(''identifier'', JString ''sim-1'')]) ''identifier'' =
             Some (JString ''sim-1'')"
    by simp
  show ?thesis
    using a b c d
      simulate_requests_results_once [of slow_server initial_page "''etf''" "JArray []" ?r
        "JObject [(''identifier'', JString ''sim-1'')]" "JString ''sim-1''"]
    by (simp add: initial_page_def results_requests_def)
qed

text \<open>
  C1 as stated fails at the slow server. The first request for results is refused and a
  second one would be answered with the plots, yet \<^verbatim>\<open>simulate\<close> returns after the one
  request: it has alerted, and both plots are still empty.
\<close>

theorem simulate_does_not_poll:
  "slow_server [SimulateRequest ''etf'' (JArray []), ResultsRequest (JString ''sim-1''),
                ResultsRequest (JString ''sim-1'')] =
     Resp \<lparr>ok = True, body_text = [],
           json = Some (JObject [(''data'',
                    JObject [(''line'', JArray []), (''table'', JArray [])])])\<rparr>
   \<and> simulate ''etf'' slow_server (JArray []) initial_page =
       (Returned,
        \<lparr>simulation_status = ''Retrieving results'', simulation_id = JString ''sim-1'',
         line_plot = None, table_plot = None, alerts = [''Error: not ready''],
         fetched = [SimulateRequest ''etf'' (JArray []), ResultsRequest (JString ''sim-1'')]\<rparr>)"
  by (simp add: slow_server_def simulate_def getResults_def send_def answer_def do_alert_def
      initial_page_def Let_def)

text \<open>
  C6. A simulate request answered with a response that is not ok ends \<^verbatim>\<open>simulate\<close> with
  an alert of the response text: nothing but the simulate request has been sent, so no
  results were requested, and the two plots are as they were. A request for results
  answered with a response that is not ok ends \<^verbatim>\<open>getResults\<close> with the alert, and the
  two plots and the displayed identifier are as they were.
\<close>

theorem not_ok_alerts_and_returns:
  "(srv (fetched pg @ [SimulateRequest k args]) = Resp r \<and> \<not> ok r \<longrightarrow>
      fst (simulate k srv args pg) = Returned
      \<and> alerts (snd (simulate k srv args pg)) = alerts pg @ [''Error: '' @ body_text r]
      \<and> fetched (snd (simulate k srv args pg)) = fetched pg @ [SimulateRequest k args]
      \<and> results_requests (snd (simulate k srv args pg)) = results_requests pg
      \<and> line_plot (snd (simulate k srv args pg)) = line_plot pg
      \<and> table_plot (snd (simulate k srv args pg)) = table_plot pg)
   \<and> (srv (fetched pg @ [ResultsRequest i]) = Resp r' \<and> \<not> ok r' \<longrightarrow>
      fst (getResults srv i pg) = Returned
      \<and> alerts (snd (getResults srv i pg)) = alerts pg @ [''Error: '' @ body_text r']
      \<and> line_plot (snd (getResults srv i pg)) = line_plot pg
      \<and> table_plot (snd (getResults srv i pg)) = table_plot pg
      \<and> simulation_id (snd (getResults srv i pg)) = simulation_id pg)"
proof (intro conjI impI; elim conjE)
  assume a: "srv (fetched pg @ [SimulateRequest k args]) = Resp r" "\<not> ok r"
  note eq = simulate_not_ok [of srv pg k args r, OF a]
  show "fst (simulate k srv args pg) = Returned" by (simp add: eq)
  show "alerts (snd (simulate k srv args pg)) = alerts pg @ [''Error: '' @ body_text r]"
    by (simp add: eq)
  show "fetched (snd (simulate k srv args pg)) = fetched pg @ [SimulateRequest k args]"
    by (simp add: eq)
  show "results_requests (snd (simulate k srv args pg)) = results_requests pg"
    by (simp add: eq results_requests_def)
  show "line_plot (snd (simulate k srv args pg)) = line_plot pg" by (simp add: eq)
  show "table_plot (snd (simulate k srv args pg)) = table_plot pg" by (simp add: eq)
next
  assume a: "srv (fetched pg @ [ResultsRequest i]) = Resp r'" "\<not> ok r'"
  note eq = getResults_not_ok [of srv pg i r', OF a]
  show "fst (getResults srv i pg) = Returned" by (simp add: eq)
  show "alerts (snd (getResults srv i pg)) = alerts pg @ [''Error: '' @ body_text r']"
    by (simp add: eq)
  show "line_plot (snd (getResults srv i pg)) = line_plot pg" by (simp add: eq)
  show "table_plot (snd (getResults srv i pg)) = table_plot pg" by (simp add: eq)
  show "simulation_id (snd (getResults srv i pg)) = simulation_id pg" by (simp add: eq)
qed

text \<open>
  The theorem at the refusing server, from the freshly loaded page: both functions
  alert \<^verbatim>\<open>Error: Bad request\<close> and leave the page's plots empty.
\<close>

theorem not_ok_alerts_and_returns_witness:
  "(refusing_server (fetched initial_page @ [SimulateRequest ''etf'' JNull]) =
      Resp \<lparr>ok = False, body_text = ''Bad request'', json = None\<rparr>
    \<and> \<not> ok \<lparr>ok = False, body_text = ''Bad request'', json = None\<rparr>)
   \<and> fst (simulate ''etf'' refusing_server JNull initial_page) = Returned
   \<and> alerts (snd (simulate ''etf'' refusing_server JNull initial_page)) =
       [''Error: Bad request'']
   \<and> fetched (snd (simulate ''etf'' refusing_server JNull initial_page)) =
       [SimulateRequest ''etf'' JNull]
   \<and> line_plot (snd (simulate ''etf'' refusing_server JNull initial_page)) = None
   \<and> (refusing_server (fetched initial_page @ [ResultsRequest (JString ''sim-1'')]) =
      Resp \<lparr>ok = False, body_text = ''Bad request'', json = None\<rparr>)
   \<and> fst (getResults refusing_server (JString ''sim-1'') initial_page) = Returned
   \<and> alerts (snd (getResults refusing_server (JString ''sim-1'') initial_page)) =
       [''Error: Bad request'']
   \<and> line_plot (snd (getResults refusing_server (JString ''sim-1'') initial_page)) = None
   \<and> table_plot (snd (getResults refusing_server (JString ''sim-1'') initial_page)) = None
   \<and> simulation_id (snd (getResults refusing_server (JString ''sim-1'') initial_page)) =
       JString ''N/A''"
proof -
  let ?r = "\<lparr>ok = False, body_text = ''Bad request'', json = None\<rparr>"
  have a: "refusing_server (fetched initial_page @ [SimulateRequest ''etf'' JNull]) = Resp ?r"
    by (simp add: refusing_server_def)
  have b: "refusing_server (fetched initial_page @ [ResultsRequest (JString ''sim-1'')]) = Resp ?r"
    by (simp add: refusing_server_def)
  have c: "\<not> ok ?r" by simp
  show ?thesis
    using a b c
      not_ok_alerts_and_returns [of refusing_server initial_page "''etf''" JNull ?r
        "JString ''sim-1''" ?r]
    by (simp add: initial_page_def)
qed

section \<open>Properties of the average-return scenario\<close>




















lemma fpow_zero: "fpow x 0 = Fin 1"
  by (cases x) simp_all









end
